theory Spec2Isabelle
  imports Complex_Main
begin

section \<open>The Kavout dashboard: data model\<close>

text \<open>
  The repository is one React component (\<^verbatim>\<open>App\<close>) and a four-function HTTP client
  (\<^verbatim>\<open>api.js\<close>). The component state is a record, each \<^verbatim>\<open>useMemo\<close> view is a
  function of that state, and each asynchronous handler is split at its single
  \<^verbatim>\<open>await\<close>: the part before it updates the state and issues the request, the part
  after it is run on the state of that later moment with the outcome of the request.

  The type \<open>'n\<close> stands for JavaScript numbers wherever the code only stores or copies
  them. Arithmetic is done in one place, \<^verbatim>\<open>forecastRows\<close>, which is stated over
  \<open>double\<close>, the binary64 numbers of IEEE 754 with round to nearest, ties to even, as
  ECMAScript prescribes for \<^verbatim>\<open>-\<close>, \<^verbatim>\<open>/\<close>, \<^verbatim>\<open>*\<close> and \<^verbatim>\<open>===\<close>.
\<close>

subsection \<open>The HTTP client (api.js)\<close>

datatype http_method = GET | POST

text \<open>
  A control of type number holds a number in the initial form objects and after a
  horizon preset, and the string \<^verbatim>\<open>e.target.value\<close> after an edit.
\<close>

datatype 'n field = FNum 'n | FStr string

record 'n TrainPayload =
  tp_ticker :: string
  tp_period :: string
  tp_input_len :: 'n
  tp_pred_len :: 'n
  tp_epochs :: 'n
  tp_batch_size :: 'n
  tp_learning_rate :: 'n
  tp_data_source :: string
  tp_local_data_dir :: "string option"

record 'n PredictPayload =
  pp_ticker :: string
  pp_horizon :: 'n
  pp_history_points :: 'n
  pp_data_source :: string
  pp_local_data_dir :: "string option"

record SymbolsParams =
  sp_data_source :: string
  sp_local_data_dir :: "string option"

record 'n HistoryParams =
  hp_ticker :: string
  hp_history_points :: 'n
  hp_data_source :: string
  hp_local_data_dir :: "string option"

text \<open>What a request carries: a JSON body for POST, query parameters for GET.\<close>

datatype 'n content =
  TrainBody "'n TrainPayload"
| PredictBody "'n PredictPayload"
| SymbolsQuery SymbolsParams
| HistoryQuery "'n HistoryParams"

record 'n request =
  rq_method :: http_method
  rq_path :: string
  rq_content :: "'n content"

definition trainModel :: "'n TrainPayload \<Rightarrow> 'n request" where
  "trainModel payload =
     \<lparr>rq_method = POST, rq_path = ''/api/train'', rq_content = TrainBody payload\<rparr>"

definition predictStock :: "'n PredictPayload \<Rightarrow> 'n request" where
  "predictStock payload =
     \<lparr>rq_method = POST, rq_path = ''/api/predict'', rq_content = PredictBody payload\<rparr>"

definition getSymbols :: "SymbolsParams \<Rightarrow> 'n request" where
  "getSymbols params =
     \<lparr>rq_method = GET, rq_path = ''/api/symbols'', rq_content = SymbolsQuery params\<rparr>"

definition getHistory :: "'n HistoryParams \<Rightarrow> 'n request" where
  "getHistory params =
     \<lparr>rq_method = GET, rq_path = ''/api/history'', rq_content = HistoryQuery params\<rparr>"

subsection \<open>Responses and errors\<close>

record 'n point =
  p_date :: string
  p_value :: 'n

record 'n TrainResult =
  tr_ticker :: string
  tr_source :: string
  tr_val_loss :: 'n
  tr_val_rmse :: 'n
  tr_direction_accuracy :: 'n

record 'n ForecastResult =
  fr_ticker :: string
  fr_source :: string
  fr_last_close :: 'n
  fr_horizon :: 'n
  fr_history :: "'n point list"
  fr_forecast :: "'n point list"

text \<open>The field of a response that the component reads with a default is optional.\<close>

record SymbolsResponse =
  sr_symbols :: "string list option"

record 'n HistoryResponse =
  hr_history :: "'n point list option"

text \<open>
  A rejected request: \<open>er_detail\<close> is \<^verbatim>\<open>err?.response?.data?.detail\<close> (\<open>None\<close> when any
  link of the chain is missing), \<open>er_message\<close> is \<^verbatim>\<open>err.message\<close>.
\<close>

record err =
  er_detail :: "string option"
  er_message :: "string option"

type_synonym 'a outcome = "err + 'a"

subsection \<open>Component state\<close>

record 'n TrainForm =
  tf_ticker :: string
  tf_period :: string
  tf_input_len :: "'n field"
  tf_pred_len :: "'n field"
  tf_epochs :: "'n field"
  tf_batch_size :: "'n field"
  tf_learning_rate :: "'n field"
  tf_data_source :: string
  tf_local_data_dir :: string

record 'n PredictForm =
  pf_ticker :: string
  pf_horizon :: "'n field"
  pf_history_points :: "'n field"
  pf_data_source :: string
  pf_local_data_dir :: string

record 'n app =
  trainForm :: "'n TrainForm"
  predictForm :: "'n PredictForm"
  symbols :: "string list"
  trainResult :: "'n TrainResult option"
  forecastResult :: "'n ForecastResult option"
  historyOnly :: "'n point list"
  loadingTrain :: bool
  loadingPredict :: bool
  loadingHistory :: bool
  loadingSymbols :: bool
  error :: string

definition initialTrain :: "real TrainForm" where
  "initialTrain =
     \<lparr>tf_ticker = ''RELIANCE'', tf_period = ''5y'', tf_input_len = FNum 60,
      tf_pred_len = FNum 5, tf_epochs = FNum 30, tf_batch_size = FNum 32,
      tf_learning_rate = FNum (1 / 1000), tf_data_source = ''local'',
      tf_local_data_dir = ''''\<rparr>"

definition initialPredict :: "real PredictForm" where
  "initialPredict =
     \<lparr>pf_ticker = ''RELIANCE'', pf_horizon = FNum 10, pf_history_points = FNum 90,
      pf_data_source = ''local'', pf_local_data_dir = ''''\<rparr>"

text \<open>The values given to \<^verbatim>\<open>useState\<close>.\<close>

definition initialApp :: "real app" where
  "initialApp =
     \<lparr>trainForm = initialTrain, predictForm = initialPredict, symbols = [],
      trainResult = None, forecastResult = None, historyOnly = [],
      loadingTrain = False, loadingPredict = False, loadingHistory = False,
      loadingSymbols = False, error = ''''\<rparr>"

section \<open>Derived views\<close>

record 'n chartPoint =
  c_date :: string
  c_history :: "'n option"
  c_forecast :: "'n option"

definition chartData :: "'n ForecastResult option \<Rightarrow> 'n point list \<Rightarrow> 'n chartPoint list" where
  "chartData forecastResult' historyOnly' =
     (case forecastResult' of
        Some fr \<Rightarrow>
          (let history = map (\<lambda>point. \<lparr>c_date = p_date point, c_history = Some (p_value point),
                                       c_forecast = None\<rparr>) (fr_history fr);
               forecast = map (\<lambda>point. \<lparr>c_date = p_date point, c_history = None,
                                        c_forecast = Some (p_value point)\<rparr>) (fr_forecast fr)
           in history @ forecast)
      | None \<Rightarrow>
          if length historyOnly' > 0
          then map (\<lambda>point. \<lparr>c_date = p_date point, c_history = Some (p_value point),
                              c_forecast = None\<rparr>) historyOnly'
          else [])"

subsection \<open>JavaScript numbers\<close>

text \<open>
  A Number is NaN, an infinity with its sign, or \<open>Finite s m e\<close>, the value
  \<open>(-1)\<^sup>s * m * 2\<^sup>e\<close>. In the results of the operations below \<open>m\<close> and \<open>e\<close> are the
  53-bit significand and the exponent of binary64: \<open>2\<^sup>5\<^sup>2 \<le> m < 2\<^sup>5\<^sup>3\<close> with
  \<open>-1074 \<le> e \<le> 971\<close> for a normal number, \<open>m < 2\<^sup>5\<^sup>2\<close> with \<open>e = -1074\<close> for a subnormal
  one, and \<open>m = 0\<close>, \<open>e = 0\<close> for the two zeros.
\<close>

datatype double = NaN | Infinity bool | Finite bool nat int

text \<open>The number of binary digits of a natural number, read off its numeral.\<close>

fun numBits :: "num \<Rightarrow> int" where
  "numBits num.One = 1"
| "numBits (num.Bit0 k) = numBits k + 1"
| "numBits (num.Bit1 k) = numBits k + 1"

definition bitLength :: "nat \<Rightarrow> int" where
  "bitLength n = (if n = 0 then 0 else numBits (num_of_nat n))"

text \<open>Dropping the \<open>k\<close> low bits of \<open>M\<close>, to nearest, a tie to the even neighbour.\<close>

definition roundShift :: "nat \<Rightarrow> nat \<Rightarrow> nat" where
  "roundShift M k =
     (let q = M div 2 ^ k; r = M mod 2 ^ k; half = 2 ^ (k - 1)
      in if r > half \<or> (r = half \<and> odd q) then q + 1 else q)"

text \<open>
  The binary64 number nearest to \<open>(-1)\<^sup>s * M * 2\<^sup>e\<close>: the significand is cut to 53 bits,
  or to fewer below the smallest normal exponent, and a result beyond the largest finite
  number is an infinity.
\<close>

definition pack :: "bool \<Rightarrow> nat \<Rightarrow> int \<Rightarrow> double" where
  "pack s M e =
     (let e1 = max (e + bitLength M - 53) (- 1074);
          m1 = (if e1 \<le> e then M * 2 ^ nat (e - e1) else roundShift M (nat (e1 - e)));
          m = (if m1 = 2 ^ 53 then 2 ^ 52 else m1);
          e2 = (if m1 = 2 ^ 53 then e1 + 1 else e1)
      in if m = 0 then Finite s 0 0
         else if e2 > 971 then Infinity s
         else Finite s m e2)"

text \<open>An integer literal of the source, such as \<^verbatim>\<open>0\<close> and \<^verbatim>\<open>100\<close>.\<close>

definition ofInt :: "int \<Rightarrow> double" where
  "ofInt i = pack (i < 0) (nat \<bar>i\<bar>) 0"

definition fneg :: "double \<Rightarrow> double" where
  "fneg x =
     (case x of NaN \<Rightarrow> NaN | Infinity s \<Rightarrow> Infinity (\<not> s) | Finite s m e \<Rightarrow> Finite (\<not> s) m e)"

definition fadd :: "double \<Rightarrow> double \<Rightarrow> double" where
  "fadd x y =
     (case (x, y) of
        (NaN, _) \<Rightarrow> NaN
      | (_, NaN) \<Rightarrow> NaN
      | (Infinity sx, Infinity sy) \<Rightarrow> if sx = sy then Infinity sx else NaN
      | (Infinity sx, Finite _ _ _) \<Rightarrow> Infinity sx
      | (Finite _ _ _, Infinity sy) \<Rightarrow> Infinity sy
      | (Finite sx mx ex, Finite sy my ey) \<Rightarrow>
          (let e = min ex ey;
               X = (if sx then - 1 else 1) * int mx * 2 ^ nat (ex - e);
               Y = (if sy then - 1 else 1) * int my * 2 ^ nat (ey - e);
               S = X + Y
           in if S = 0 then Finite (sx \<and> sy) 0 0 else pack (S < 0) (nat \<bar>S\<bar>) e))"

text \<open>\<^verbatim>\<open>x - y\<close>\<close>

definition fsub :: "double \<Rightarrow> double \<Rightarrow> double" where
  "fsub x y = fadd x (fneg y)"

text \<open>\<^verbatim>\<open>x * y\<close>\<close>

definition fmul :: "double \<Rightarrow> double \<Rightarrow> double" where
  "fmul x y =
     (case (x, y) of
        (NaN, _) \<Rightarrow> NaN
      | (_, NaN) \<Rightarrow> NaN
      | (Infinity sx, Infinity sy) \<Rightarrow> Infinity (sx \<noteq> sy)
      | (Infinity sx, Finite sy my _) \<Rightarrow> if my = 0 then NaN else Infinity (sx \<noteq> sy)
      | (Finite sx mx _, Infinity sy) \<Rightarrow> if mx = 0 then NaN else Infinity (sx \<noteq> sy)
      | (Finite sx mx ex, Finite sy my ey) \<Rightarrow> pack (sx \<noteq> sy) (mx * my) (ex + ey))"

text \<open>
  \<^verbatim>\<open>x / y\<close>. The quotient of the significands is taken to more than 57 bits, with one
  more bit that records a remainder, and rounded once.
\<close>

definition fdiv :: "double \<Rightarrow> double \<Rightarrow> double" where
  "fdiv x y =
     (case (x, y) of
        (NaN, _) \<Rightarrow> NaN
      | (_, NaN) \<Rightarrow> NaN
      | (Infinity sx, Infinity sy) \<Rightarrow> NaN
      | (Infinity sx, Finite sy _ _) \<Rightarrow> Infinity (sx \<noteq> sy)
      | (Finite sx _ _, Infinity sy) \<Rightarrow> Finite (sx \<noteq> sy) 0 0
      | (Finite sx mx ex, Finite sy my ey) \<Rightarrow>
          if my = 0 then (if mx = 0 then NaN else Infinity (sx \<noteq> sy))
          else (let Q = (mx * 2 ^ 110) div my;
                    R = (mx * 2 ^ 110) mod my
                in pack (sx \<noteq> sy) (2 * Q + (if R = 0 then 0 else 1)) (ex - ey - 111)))"

definition isZero :: "double \<Rightarrow> bool" where
  "isZero x = (case x of Finite _ m _ \<Rightarrow> m = 0 | _ \<Rightarrow> False)"

text \<open>\<^verbatim>\<open>x === y\<close> on numbers: NaN equals nothing, and the two zeros are equal.\<close>

definition strictEq :: "double \<Rightarrow> double \<Rightarrow> bool" where
  "strictEq x y = (x \<noteq> NaN \<and> y \<noteq> NaN \<and> (x = y \<or> (isZero x \<and> isZero y)))"

subsection \<open>The forecast tape\<close>

record forecastRow =
  step :: nat
  row_date :: string
  row_value :: double
  delta :: double
  pct :: double

definition forecastRows :: "double ForecastResult option \<Rightarrow> forecastRow list" where
  "forecastRows forecastResult' =
     (case forecastResult' of
        None \<Rightarrow> []
      | Some fr \<Rightarrow>
          (let base = fr_last_close fr
           in map (\<lambda>(index, point).
                     let delta' = fsub (p_value point) base;
                         pct' = (if strictEq base (ofInt 0) then ofInt 0
                                 else fmul (fdiv delta' base) (ofInt 100))
                     in \<lparr>step = index + 1, row_date = p_date point, row_value = p_value point,
                         delta = delta', pct = pct'\<rparr>)
                  (enumerate 0 (fr_forecast fr))))"

section \<open>Handlers\<close>

subsection \<open>Runtime built-ins\<close>

text \<open>
  The two library functions the component applies to form input are parameters of the
  model: \<open>StringToNumber\<close> is what \<^verbatim>\<open>Number\<close> does to a string, \<open>toUpperCase\<close> is
  \<^verbatim>\<open>String.prototype.toUpperCase\<close>.
\<close>

record 'n runtime =
  StringToNumber :: "string \<Rightarrow> 'n"
  toUpperCase :: "string \<Rightarrow> string"

definition Number :: "'n runtime \<Rightarrow> 'n field \<Rightarrow> 'n" where
  "Number rt v = (case v of FNum n \<Rightarrow> n | FStr s \<Rightarrow> StringToNumber rt s)"

text \<open>
  \<^verbatim>\<open>a || b\<close> on strings that may be missing: the empty string, \<^verbatim>\<open>undefined\<close> and
  \<^verbatim>\<open>null\<close> are falsy. \<open>orAbsent\<close> is \<^verbatim>\<open>s || null\<close> and \<^verbatim>\<open>s || undefined\<close>.
\<close>

definition truthy :: "string option \<Rightarrow> bool" where
  "truthy v = (case v of None \<Rightarrow> False | Some s \<Rightarrow> s \<noteq> [])"

definition orJs :: "string option \<Rightarrow> string option \<Rightarrow> string option" where
  "orJs a b = (if truthy a then a else b)"

definition orElse :: "string option \<Rightarrow> string \<Rightarrow> string" where
  "orElse a b = (case a of None \<Rightarrow> b | Some s \<Rightarrow> if s \<noteq> [] then s else b)"

definition orAbsent :: "string \<Rightarrow> string option" where
  "orAbsent s = (if s \<noteq> [] then Some s else None)"

text \<open>\<^verbatim>\<open>err?.response?.data?.detail || err.message || fallback\<close>\<close>

definition errorText :: "err \<Rightarrow> string \<Rightarrow> string" where
  "errorText e fallback = orElse (orJs (er_detail e) (er_message e)) fallback"

subsection \<open>loadSymbols\<close>

definition loadSymbols_call :: "string \<Rightarrow> string \<Rightarrow> 'n app \<Rightarrow> 'n app \<times> 'n request option" where
  "loadSymbols_call dataSource localDataDir s =
     (if dataSource = ''yfinance'' then (s\<lparr>symbols := []\<rparr>, None)
      else (s\<lparr>loadingSymbols := True\<rparr>,
            Some (getSymbols \<lparr>sp_data_source = dataSource,
                              sp_local_data_dir = orAbsent localDataDir\<rparr>)))"

definition loadSymbols_settle :: "SymbolsResponse outcome \<Rightarrow> 'n app \<Rightarrow> 'n app" where
  "loadSymbols_settle out s =
     (case out of
        Inr data \<Rightarrow> s\<lparr>symbols := (case sr_symbols data of Some xs \<Rightarrow> xs | None \<Rightarrow> [])\<rparr>
      | Inl e \<Rightarrow> s\<lparr>symbols := []\<rparr>)
     \<lparr>loadingSymbols := False\<rparr>"

text \<open>The effect on \<^verbatim>\<open>[trainForm.data_source, trainForm.local_data_dir]\<close>.\<close>

definition symbolsEffect :: "'n app \<Rightarrow> 'n app \<times> 'n request option" where
  "symbolsEffect s =
     loadSymbols_call (tf_data_source (trainForm s)) (tf_local_data_dir (trainForm s)) s"

subsection \<open>onTrainSubmit\<close>

definition trainPayload :: "'n runtime \<Rightarrow> 'n TrainForm \<Rightarrow> 'n TrainPayload" where
  "trainPayload rt tf =
     \<lparr>tp_ticker = tf_ticker tf,
      tp_period = tf_period tf,
      tp_input_len = Number rt (tf_input_len tf),
      tp_pred_len = Number rt (tf_pred_len tf),
      tp_epochs = Number rt (tf_epochs tf),
      tp_batch_size = Number rt (tf_batch_size tf),
      tp_learning_rate = Number rt (tf_learning_rate tf),
      tp_data_source = tf_data_source tf,
      tp_local_data_dir = orAbsent (tf_local_data_dir tf)\<rparr>"

definition onTrainSubmit_call :: "'n runtime \<Rightarrow> 'n app \<Rightarrow> 'n app \<times> 'n request" where
  "onTrainSubmit_call rt s =
     (s\<lparr>error := [], loadingTrain := True\<rparr>, trainModel (trainPayload rt (trainForm s)))"

text \<open>
  The continuation reads \<^verbatim>\<open>trainForm\<close> from the closure of the submission (\<open>tf\<close>) and
  the predict form from the updater's argument, the state of the moment it runs.
\<close>

definition onTrainSubmit_settle ::
  "'n TrainForm \<Rightarrow> 'n TrainResult outcome \<Rightarrow> 'n app \<Rightarrow> 'n app" where
  "onTrainSubmit_settle tf out s =
     (case out of
        Inr data \<Rightarrow>
          s\<lparr>trainResult := Some data,
            predictForm := (predictForm s)\<lparr>pf_ticker := tf_ticker tf,
                                           pf_data_source := tf_data_source tf,
                                           pf_local_data_dir := tf_local_data_dir tf\<rparr>\<rparr>
      | Inl e \<Rightarrow> s\<lparr>error := errorText e ''Training failed''\<rparr>)
     \<lparr>loadingTrain := False\<rparr>"

subsection \<open>onPredictSubmit\<close>

definition predictPayload :: "'n runtime \<Rightarrow> 'n PredictForm \<Rightarrow> 'n PredictPayload" where
  "predictPayload rt pf =
     \<lparr>pp_ticker = pf_ticker pf,
      pp_horizon = Number rt (pf_horizon pf),
      pp_history_points = Number rt (pf_history_points pf),
      pp_data_source = pf_data_source pf,
      pp_local_data_dir = orAbsent (pf_local_data_dir pf)\<rparr>"

definition onPredictSubmit_call :: "'n runtime \<Rightarrow> 'n app \<Rightarrow> 'n app \<times> 'n request" where
  "onPredictSubmit_call rt s =
     (s\<lparr>error := [], loadingPredict := True\<rparr>,
      predictStock (predictPayload rt (predictForm s)))"

definition onPredictSubmit_settle :: "'n ForecastResult outcome \<Rightarrow> 'n app \<Rightarrow> 'n app" where
  "onPredictSubmit_settle out s =
     (case out of
        Inr data \<Rightarrow> s\<lparr>forecastResult := Some data, historyOnly := []\<rparr>
      | Inl e \<Rightarrow> s\<lparr>error := errorText e ''Prediction failed''\<rparr>)
     \<lparr>loadingPredict := False\<rparr>"

subsection \<open>onLoadHistory\<close>

definition historyParams :: "'n runtime \<Rightarrow> 'n PredictForm \<Rightarrow> 'n HistoryParams" where
  "historyParams rt pf =
     \<lparr>hp_ticker = pf_ticker pf,
      hp_history_points = Number rt (pf_history_points pf),
      hp_data_source = pf_data_source pf,
      hp_local_data_dir = orAbsent (pf_local_data_dir pf)\<rparr>"

definition onLoadHistory_call :: "'n runtime \<Rightarrow> 'n app \<Rightarrow> 'n app \<times> 'n request" where
  "onLoadHistory_call rt s =
     (s\<lparr>error := [], loadingHistory := True\<rparr>,
      getHistory (historyParams rt (predictForm s)))"

definition onLoadHistory_settle :: "'n HistoryResponse outcome \<Rightarrow> 'n app \<Rightarrow> 'n app" where
  "onLoadHistory_settle out s =
     (case out of
        Inr data \<Rightarrow>
          s\<lparr>historyOnly := (case hr_history data of Some h \<Rightarrow> h | None \<Rightarrow> []),
            forecastResult := None\<rparr>
      | Inl e \<Rightarrow> s\<lparr>error := errorText e ''History fetch failed''\<rparr>)
     \<lparr>loadingHistory := False\<rparr>"

subsection \<open>A handler run to completion\<close>

text \<open>
  The handler from its call to the end of its \<^verbatim>\<open>finally\<close> block when nothing else
  happens in between; \<open>respond\<close> is the service's answer to the request.
\<close>

definition onTrainSubmit ::
  "'n runtime \<Rightarrow> ('n request \<Rightarrow> 'n TrainResult outcome) \<Rightarrow> 'n app \<Rightarrow> 'n app" where
  "onTrainSubmit rt respond s =
     (let (s1, req) = onTrainSubmit_call rt s
      in onTrainSubmit_settle (trainForm s) (respond req) s1)"

definition onPredictSubmit ::
  "'n runtime \<Rightarrow> ('n request \<Rightarrow> 'n ForecastResult outcome) \<Rightarrow> 'n app \<Rightarrow> 'n app" where
  "onPredictSubmit rt respond s =
     (let (s1, req) = onPredictSubmit_call rt s
      in onPredictSubmit_settle (respond req) s1)"

definition onLoadHistory ::
  "'n runtime \<Rightarrow> ('n request \<Rightarrow> 'n HistoryResponse outcome) \<Rightarrow> 'n app \<Rightarrow> 'n app" where
  "onLoadHistory rt respond s =
     (let (s1, req) = onLoadHistory_call rt s
      in onLoadHistory_settle (respond req) s1)"

definition loadSymbols ::
  "('n request \<Rightarrow> SymbolsResponse outcome) \<Rightarrow> string \<Rightarrow> string \<Rightarrow> 'n app \<Rightarrow> 'n app" where
  "loadSymbols respond dataSource localDataDir s =
     (case loadSymbols_call dataSource localDataDir s of
        (s1, None) \<Rightarrow> s1
      | (s1, Some req) \<Rightarrow> loadSymbols_settle (respond req) s1)"

subsection \<open>Events of the page\<close>

datatype train_input =
  TTicker | TDataSource | TPeriod | TLocalDataDir
| TInputLen | TPredLen | TEpochs | TBatchSize | TLearningRate

datatype predict_input =
  PTicker | PDataSource | PHorizon | PHistoryPoints | PLocalDataDir

text \<open>The \<^verbatim>\<open>onChange\<close> handlers of the two forms, by control.\<close>

definition changeTrain :: "'n runtime \<Rightarrow> train_input \<Rightarrow> string \<Rightarrow> 'n TrainForm \<Rightarrow> 'n TrainForm" where
  "changeTrain rt inp v tf =
     (case inp of
        TTicker \<Rightarrow> tf\<lparr>tf_ticker := toUpperCase rt v\<rparr>
      | TDataSource \<Rightarrow> tf\<lparr>tf_data_source := v\<rparr>
      | TPeriod \<Rightarrow> tf\<lparr>tf_period := v\<rparr>
      | TLocalDataDir \<Rightarrow> tf\<lparr>tf_local_data_dir := v\<rparr>
      | TInputLen \<Rightarrow> tf\<lparr>tf_input_len := FStr v\<rparr>
      | TPredLen \<Rightarrow> tf\<lparr>tf_pred_len := FStr v\<rparr>
      | TEpochs \<Rightarrow> tf\<lparr>tf_epochs := FStr v\<rparr>
      | TBatchSize \<Rightarrow> tf\<lparr>tf_batch_size := FStr v\<rparr>
      | TLearningRate \<Rightarrow> tf\<lparr>tf_learning_rate := FStr v\<rparr>)"

definition changePredict ::
  "'n runtime \<Rightarrow> predict_input \<Rightarrow> string \<Rightarrow> 'n PredictForm \<Rightarrow> 'n PredictForm" where
  "changePredict rt inp v pf =
     (case inp of
        PTicker \<Rightarrow> pf\<lparr>pf_ticker := toUpperCase rt v\<rparr>
      | PDataSource \<Rightarrow> pf\<lparr>pf_data_source := v\<rparr>
      | PHorizon \<Rightarrow> pf\<lparr>pf_horizon := FStr v\<rparr>
      | PHistoryPoints \<Rightarrow> pf\<lparr>pf_history_points := FStr v\<rparr>
      | PLocalDataDir \<Rightarrow> pf\<lparr>pf_local_data_dir := v\<rparr>)"

definition applySymbol :: "string \<Rightarrow> 'n app \<Rightarrow> 'n app" where
  "applySymbol symbol s =
     s\<lparr>trainForm := (trainForm s)\<lparr>tf_ticker := symbol\<rparr>,
       predictForm := (predictForm s)\<lparr>pf_ticker := symbol\<rparr>\<rparr>"

text \<open>
  What can happen to the page: the first render, an edit of a control, a click, and
  the settlement of a request in flight. A settlement of a train request carries the
  train form its handler closed over.
\<close>

datatype 'n event =
  Mount
| ChangeTrain train_input string
| ChangePredict predict_input string
| HorizonPreset 'n
| ApplySymbol string
| TrainSubmit
| TrainSettled "'n TrainForm" "'n TrainResult outcome"
| PredictSubmit
| PredictSettled "'n ForecastResult outcome"
| LoadHistory
| HistorySettled "'n HistoryResponse outcome"
| SymbolsSettled "SymbolsResponse outcome"

definition issued :: "'a \<times> 'r option \<Rightarrow> 'a \<times> 'r list" where
  "issued r = (fst r, case snd r of None \<Rightarrow> [] | Some q \<Rightarrow> [q])"

text \<open>
  One event: the new state and the requests it sends. After an edit of the train form
  the effect runs again when one of its two dependencies has changed.
\<close>

definition dispatch :: "'n runtime \<Rightarrow> 'n app \<Rightarrow> 'n event \<Rightarrow> 'n app \<times> 'n request list" where
  "dispatch rt s ev =
     (case ev of
        Mount \<Rightarrow> issued (symbolsEffect s)
      | ChangeTrain inp v \<Rightarrow>
          (let tf = changeTrain rt inp v (trainForm s);
               s1 = s\<lparr>trainForm := tf\<rparr>
           in if tf_data_source tf \<noteq> tf_data_source (trainForm s)
                 \<or> tf_local_data_dir tf \<noteq> tf_local_data_dir (trainForm s)
              then issued (symbolsEffect s1) else (s1, []))
      | ChangePredict inp v \<Rightarrow> (s\<lparr>predictForm := changePredict rt inp v (predictForm s)\<rparr>, [])
      | HorizonPreset preset \<Rightarrow> (s\<lparr>predictForm := (predictForm s)\<lparr>pf_horizon := FNum preset\<rparr>\<rparr>, [])
      | ApplySymbol symbol \<Rightarrow> (applySymbol symbol s, [])
      | TrainSubmit \<Rightarrow> (let (s1, req) = onTrainSubmit_call rt s in (s1, [req]))
      | TrainSettled tf out \<Rightarrow> (onTrainSubmit_settle tf out s, [])
      | PredictSubmit \<Rightarrow> (let (s1, req) = onPredictSubmit_call rt s in (s1, [req]))
      | PredictSettled out \<Rightarrow> (onPredictSubmit_settle out s, [])
      | LoadHistory \<Rightarrow> (let (s1, req) = onLoadHistory_call rt s in (s1, [req]))
      | HistorySettled out \<Rightarrow> (onLoadHistory_settle out s, [])
      | SymbolsSettled out \<Rightarrow> (loadSymbols_settle out s, []))"

fun run :: "'n runtime \<Rightarrow> 'n app \<Rightarrow> 'n event list \<Rightarrow> 'n app" where
  "run rt s [] = s"
| "run rt s (ev # evs) = run rt (fst (dispatch rt s ev)) evs"

text \<open>At most one of the forecast result and the history-only series is populated.\<close>

definition atMostOne :: "'n app \<Rightarrow> bool" where
  "atMostOne s = (forecastResult s = None \<or> historyOnly s = [])"

text \<open>A request made through one of the four functions of the client.\<close>

definition viaClient :: "'n request \<Rightarrow> bool" where
  "viaClient r =
     (case rq_content r of
        TrainBody payload \<Rightarrow> r = trainModel payload
      | PredictBody payload \<Rightarrow> r = predictStock payload
      | SymbolsQuery params \<Rightarrow> r = getSymbols params
      | HistoryQuery params \<Rightarrow> r = getHistory params)"

section \<open>Sample data\<close>

text \<open>Concrete inputs on which the properties below are evaluated.\<close>

definition demoRuntime :: "real runtime" where
  "demoRuntime = \<lparr>StringToNumber = (\<lambda>s. if s = ''64'' then 64 else 0), toUpperCase = id\<rparr>"

definition demoForecast :: "real ForecastResult" where
  "demoForecast =
     \<lparr>fr_ticker = ''TCS'', fr_source = ''local'', fr_last_close = 100, fr_horizon = 2,
      fr_history = [\<lparr>p_date = ''2024-01-01'', p_value = 100\<rparr>],
      fr_forecast = [\<lparr>p_date = ''2024-01-02'', p_value = 110\<rparr>,
                     \<lparr>p_date = ''2024-01-03'', p_value = 95\<rparr>]\<rparr>"

definition demoTape :: "double ForecastResult" where
  "demoTape =
     \<lparr>fr_ticker = ''TCS'', fr_source = ''local'', fr_last_close = ofInt 3, fr_horizon = ofInt 2,
      fr_history = [\<lparr>p_date = ''2024-01-01'', p_value = ofInt 3\<rparr>],
      fr_forecast = [\<lparr>p_date = ''2024-01-02'', p_value = ofInt 4\<rparr>,
                     \<lparr>p_date = ''2024-01-03'', p_value = ofInt 2\<rparr>]\<rparr>"

definition demoError :: err where
  "demoError = \<lparr>er_detail = Some ''Data directory not found'',
                  er_message = Some ''Request failed with status code 404''\<rparr>"

definition demoTrainResult :: "real TrainResult" where
  "demoTrainResult =
     \<lparr>tr_ticker = ''TCS'', tr_source = ''local'', tr_val_loss = 1 / 100,
      tr_val_rmse = 1 / 10, tr_direction_accuracy = 3 / 5\<rparr>"

section \<open>Properties\<close>

subsection \<open>The HTTP client\<close>

text \<open>
  Claim C1. The client has four functions, one per endpoint: \<open>trainModel\<close> sends POST
  \<^verbatim>\<open>/api/train\<close>, \<open>predictStock\<close> sends POST \<^verbatim>\<open>/api/predict\<close>, \<open>getSymbols\<close> sends GET
  \<^verbatim>\<open>/api/symbols\<close> and \<open>getHistory\<close> sends GET \<^verbatim>\<open>/api/history\<close>; and every request
  that any event of the page sends, in any state, is a call of one of the four.
\<close>

theorem api_endpoints:
  "rq_method (trainModel p1 :: 'n request) = POST \<and> rq_path (trainModel p1) = ''/api/train''
   \<and> rq_method (predictStock p2 :: 'n request) = POST \<and> rq_path (predictStock p2) = ''/api/predict''
   \<and> rq_method (getSymbols q1 :: 'n request) = GET \<and> rq_path (getSymbols q1 :: 'n request) = ''/api/symbols''
   \<and> rq_method (getHistory q2 :: 'n request) = GET \<and> rq_path (getHistory q2) = ''/api/history''
   \<and> (\<forall>r \<in> set (snd (dispatch rt (s :: 'n app) ev)). viaClient r)"
  by (auto simp: trainModel_def predictStock_def getSymbols_def getHistory_def dispatch_def
      viaClient_def issued_def symbolsEffect_def loadSymbols_call_def onTrainSubmit_call_def
      onPredictSubmit_call_def onLoadHistory_call_def Let_def
      split: event.splits option.splits if_splits)

text \<open>
  The history button on the freshly mounted page sends one GET \<^verbatim>\<open>/api/history\<close>, built by
  \<open>getHistory\<close>.
\<close>

theorem api_endpoints_witness:
  "snd (dispatch demoRuntime initialApp LoadHistory) =
     [\<lparr>rq_method = GET, rq_path = ''/api/history'',
       rq_content = HistoryQuery \<lparr>hp_ticker = ''RELIANCE'', hp_history_points = 90,
                                  hp_data_source = ''local'', hp_local_data_dir = None\<rparr>\<rparr>]
   \<and> viaClient (hd (snd (dispatch demoRuntime initialApp LoadHistory)))"
  using api_endpoints [where rt = demoRuntime and s = initialApp and ev = LoadHistory
      and ?p1.0 = "trainPayload demoRuntime initialTrain"
      and ?p2.0 = "predictPayload demoRuntime initialPredict"
      and ?q1.0 = "\<lparr>sp_data_source = ''local'', sp_local_data_dir = None\<rparr>"
      and ?q2.0 = "historyParams demoRuntime initialPredict"]
  by (simp add: dispatch_def onLoadHistory_call_def getHistory_def historyParams_def
      initialApp_def initialPredict_def Number_def orAbsent_def)

subsection \<open>Failed requests\<close>

text \<open>
  Claim C2, as stated, fails for the symbols fetch: \<open>loadSymbols\<close> catches the rejection
  without binding it and only empties the symbol list. With a response whose detail is
  \<^verbatim>\<open>Data directory not found\<close> the error shown stays empty.
\<close>

theorem symbols_failure_silent:
  "error (loadSymbols (\<lambda>req. Inl demoError) ''local'' ''missing'' initialApp) = ''''
   \<and> er_detail demoError = Some ''Data directory not found''
   \<and> error (loadSymbols (\<lambda>req. Inl demoError) ''local'' ''missing'' initialApp) \<noteq>
       errorText demoError ''Symbols failed''"
  by (simp add: loadSymbols_def loadSymbols_call_def loadSymbols_settle_def initialApp_def
      demoError_def errorText_def orJs_def orElse_def truthy_def)

text \<open>
  Claim C2, amended. When a train, predict or history request is rejected, the error state
  becomes the server's detail when that is present and not empty, otherwise the error's
  own message when that is present and not empty, otherwise the handler's fallback text;
  the settlement of a rejected request sends nothing, so nothing is retried. A rejected
  symbols fetch leaves the error state as it was and empties the symbol list.
\<close>

theorem request_failure_surfaced:
  "error (onTrainSubmit_settle tf (Inl e) s) = errorText e ''Training failed''
   \<and> error (onPredictSubmit_settle (Inl e) s) = errorText e ''Prediction failed''
   \<and> error (onLoadHistory_settle (Inl e) s) = errorText e ''History fetch failed''
   \<and> (\<forall>d. er_detail e = Some d \<and> d \<noteq> [] \<longrightarrow> errorText e fallback = d)
   \<and> (\<forall>m. \<not> truthy (er_detail e) \<and> er_message e = Some m \<and> m \<noteq> [] \<longrightarrow> errorText e fallback = m)
   \<and> (\<not> truthy (er_detail e) \<and> \<not> truthy (er_message e) \<longrightarrow> errorText e fallback = fallback)
   \<and> snd (dispatch rt s (TrainSettled tf (Inl e))) = []
   \<and> snd (dispatch rt s (PredictSettled (Inl e))) = []
   \<and> snd (dispatch rt s (HistorySettled (Inl e))) = []
   \<and> snd (dispatch rt s (SymbolsSettled (Inl e))) = []
   \<and> error (loadSymbols_settle (Inl e) s) = error s
   \<and> symbols (loadSymbols_settle (Inl e) s) = []"
  for s :: "'n app"
  by (auto simp: onTrainSubmit_settle_def onPredictSubmit_settle_def onLoadHistory_settle_def
      loadSymbols_settle_def errorText_def orElse_def orJs_def truthy_def dispatch_def
      split: option.splits)

text \<open>
  A detail is shown as it is; without a detail the message is shown; an empty detail and no
  message give the fallback.
\<close>

theorem request_failure_surfaced_witness:
  "error (onPredictSubmit_settle (Inl demoError) initialApp) = ''Data directory not found''
   \<and> error (onLoadHistory_settle (Inl \<lparr>er_detail = None, er_message = Some ''Network Error''\<rparr>)
        initialApp) = ''Network Error''
   \<and> error (onTrainSubmit_settle initialTrain (Inl \<lparr>er_detail = Some '''', er_message = None\<rparr>)
        initialApp) = ''Training failed''"
  using request_failure_surfaced [of initialTrain demoError initialApp "''Prediction failed''"]
    request_failure_surfaced [of initialTrain "\<lparr>er_detail = None, er_message = Some ''Network Error''\<rparr>"
      initialApp "''History fetch failed''"]
    request_failure_surfaced [of initialTrain "\<lparr>er_detail = Some '''', er_message = None\<rparr>"
      initialApp "''Training failed''"]
  by (simp add: demoError_def truthy_def)

subsection \<open>One request per action\<close>

text \<open>
  Claim C3, as stated, fails for the symbols refresh: with the data source
  \<^verbatim>\<open>yfinance\<close> the guard at the head of \<open>loadSymbols\<close> returns before any request, so
  selecting that source refreshes the symbols with no HTTP call at all.
\<close>

theorem yfinance_refresh_sends_nothing:
  "snd (loadSymbols_call ''yfinance'' '''' initialApp) = None
   \<and> snd (dispatch demoRuntime initialApp (ChangeTrain TDataSource ''yfinance'')) = []
   \<and> length (snd (dispatch demoRuntime initialApp (ChangeTrain TDataSource ''yfinance''))) \<noteq> 1"
  by (simp add: loadSymbols_call_def dispatch_def changeTrain_def symbolsEffect_def issued_def
      initialApp_def initialTrain_def Let_def)

text \<open>
  Claim C3, amended. A train submit, a predict submit and a history load each send exactly
  one request, built from the form of that moment whatever the state holds already; a
  symbols refresh sends exactly one request unless the data source is \<^verbatim>\<open>yfinance\<close>, where
  it sends none and empties the symbol list. The settlement of each request stores its
  result in the component state and sends nothing further.
\<close>

theorem one_call_per_action:
  "snd (dispatch rt s TrainSubmit) = [trainModel (trainPayload rt (trainForm s))]
   \<and> snd (dispatch rt s PredictSubmit) = [predictStock (predictPayload rt (predictForm s))]
   \<and> snd (dispatch rt s LoadHistory) = [getHistory (historyParams rt (predictForm s))]
   \<and> snd (issued (loadSymbols_call dataSource localDataDir s)) =
       (if dataSource = ''yfinance'' then []
        else [getSymbols \<lparr>sp_data_source = dataSource,
                          sp_local_data_dir = orAbsent localDataDir\<rparr>])
   \<and> symbols (fst (loadSymbols_call ''yfinance'' localDataDir s)) = []
   \<and> trainResult (onTrainSubmit_settle tf (Inr trained) s) = Some trained
   \<and> forecastResult (onPredictSubmit_settle (Inr predicted) s) = Some predicted
   \<and> historyOnly (onLoadHistory_settle (Inr loaded) s) =
       (case hr_history loaded of Some h \<Rightarrow> h | None \<Rightarrow> [])
   \<and> symbols (loadSymbols_settle (Inr listed) s) =
       (case sr_symbols listed of Some xs \<Rightarrow> xs | None \<Rightarrow> [])
   \<and> snd (dispatch rt s (TrainSettled tf trainOut)) = []
   \<and> snd (dispatch rt s (PredictSettled predictOut)) = []
   \<and> snd (dispatch rt s (HistorySettled historyOut)) = []
   \<and> snd (dispatch rt s (SymbolsSettled symbolsOut)) = []"
  for s :: "'n app"
  by (simp add: dispatch_def onTrainSubmit_call_def onPredictSubmit_call_def
      onLoadHistory_call_def loadSymbols_call_def issued_def onTrainSubmit_settle_def
      onPredictSubmit_settle_def onLoadHistory_settle_def loadSymbols_settle_def)

text \<open>
  One POST \<^verbatim>\<open>/api/predict\<close> for the predict button, one GET \<^verbatim>\<open>/api/symbols\<close> for a
  refresh with the source \<^verbatim>\<open>auto\<close>.
\<close>

theorem one_call_per_action_witness:
  "snd (dispatch demoRuntime initialApp PredictSubmit) =
     [\<lparr>rq_method = POST, rq_path = ''/api/predict'',
       rq_content = PredictBody \<lparr>pp_ticker = ''RELIANCE'', pp_horizon = 10,
                                 pp_history_points = 90, pp_data_source = ''local'',
                                 pp_local_data_dir = None\<rparr>\<rparr>]
   \<and> snd (issued (loadSymbols_call ''auto'' ''backend/data'' initialApp)) =
     [\<lparr>rq_method = GET, rq_path = ''/api/symbols'',
       rq_content = SymbolsQuery \<lparr>sp_data_source = ''auto'',
                                  sp_local_data_dir = Some ''backend/data''\<rparr>\<rparr>]"
  using one_call_per_action [where rt = demoRuntime and s = initialApp
      and dataSource = "''auto''" and localDataDir = "''backend/data''"]
  by (simp add: predictStock_def predictPayload_def getSymbols_def initialApp_def
      initialPredict_def Number_def orAbsent_def)

subsection \<open>The forecast tape and the chart\<close>

text \<open>
  Claim C4. Without a forecast result the tape is empty. With one, the tape has as many rows
  as the forecast has points, and row \<open>i\<close> (counting from 0) has the step \<open>i + 1\<close>, the date
  and value of forecast point \<open>i\<close>, the delta \<^verbatim>\<open>value - last_close\<close>, and the percentage
  \<^verbatim>\<open>(delta / last_close) * 100\<close>, or 0 when the last close is a zero, all in the
  arithmetic of JavaScript numbers. The literal \<^verbatim>\<open>0\<close> is the positive zero, and
  \<^verbatim>\<open>=== 0\<close> holds of the two zeros and of nothing else.
\<close>

theorem forecastRows_tape:
  "forecastRows None = []
   \<and> length (forecastRows (Some fr)) = length (fr_forecast fr)
   \<and> (\<forall>i < length (fr_forecast fr).
         forecastRows (Some fr) ! i =
           \<lparr>step = i + 1,
            row_date = p_date (fr_forecast fr ! i),
            row_value = p_value (fr_forecast fr ! i),
            delta = fsub (p_value (fr_forecast fr ! i)) (fr_last_close fr),
            pct = (if isZero (fr_last_close fr) then Finite False 0 0
                   else fmul (fdiv (fsub (p_value (fr_forecast fr ! i)) (fr_last_close fr))
                                   (fr_last_close fr))
                             (Finite False 7036874417766400 (- 46)))\<rparr>)
   \<and> ofInt 0 = Finite False 0 0
   \<and> ofInt 100 = Finite False 7036874417766400 (- 46)
   \<and> strictEq x (ofInt 0) = isZero x"
proof -
  have zero: "ofInt 0 = Finite False 0 0"
    by (simp add: ofInt_def pack_def bitLength_def)
  have hundred: "ofInt 100 = Finite False 7036874417766400 (- 46)"
    by (simp add: ofInt_def pack_def bitLength_def)
  have eq0: "strictEq y (Finite False 0 0) = isZero y" for y
    by (cases y) (auto simp: strictEq_def isZero_def)
  have eq: "strictEq y (ofInt 0) = isZero y" for y
    by (simp add: zero eq0)
  have rows: "\<forall>i < length (fr_forecast fr).
         forecastRows (Some fr) ! i =
           \<lparr>step = i + 1,
            row_date = p_date (fr_forecast fr ! i),
            row_value = p_value (fr_forecast fr ! i),
            delta = fsub (p_value (fr_forecast fr ! i)) (fr_last_close fr),
            pct = (if isZero (fr_last_close fr) then Finite False 0 0
                   else fmul (fdiv (fsub (p_value (fr_forecast fr ! i)) (fr_last_close fr))
                                   (fr_last_close fr))
                             (Finite False 7036874417766400 (- 46)))\<rparr>"
    by (simp add: forecastRows_def Let_def nth_enumerate_eq eq0 zero hundred)
  have len: "forecastRows None = []
      \<and> length (forecastRows (Some fr)) = length (fr_forecast fr)"
    by (simp add: forecastRows_def Let_def)
  from len rows zero hundred eq show ?thesis by blast
qed

text \<open>
  A last close of 3 and forecasts of 4 and 2: the deltas are 1 and -1 and the percentages
  are the doubles \<open>4691249611844266 * 2\<^sup>-\<^sup>4\<^sup>7\<close> and its negative, which print as
  33.33333333333333, not the quotient 100/3. With a last close of negative zero the
  percentage is the positive zero, where the division alone gives an infinity.
\<close>

theorem forecastRows_tape_witness:
  "length (forecastRows (Some demoTape)) = 2
   \<and> forecastRows (Some demoTape) ! 0 =
       \<lparr>step = 1, row_date = ''2024-01-02'', row_value = Finite False 4503599627370496 (- 50),
        delta = Finite False 4503599627370496 (- 52),
        pct = Finite False 4691249611844266 (- 47)\<rparr>
   \<and> forecastRows (Some demoTape) ! 1 =
       \<lparr>step = 2, row_date = ''2024-01-03'', row_value = Finite False 4503599627370496 (- 51),
        delta = Finite True 4503599627370496 (- 52),
        pct = Finite True 4691249611844266 (- 47)\<rparr>
   \<and> pct (forecastRows (Some (demoTape\<lparr>fr_last_close := Finite True 0 0\<rparr>)) ! 0) = Finite False 0 0
   \<and> fmul (fdiv (fsub (ofInt 4) (Finite True 0 0)) (Finite True 0 0)) (ofInt 100) = Infinity True"
proof -
  have o2: "ofInt 2 = Finite False 4503599627370496 (- 51)"
    by (simp add: ofInt_def pack_def bitLength_def)
  have o3: "ofInt 3 = Finite False 6755399441055744 (- 51)"
    by (simp add: ofInt_def pack_def bitLength_def)
  have o4: "ofInt 4 = Finite False 4503599627370496 (- 50)"
    by (simp add: ofInt_def pack_def bitLength_def)
  have o100: "ofInt 100 = Finite False 7036874417766400 (- 46)"
    by (simp add: ofInt_def pack_def bitLength_def)
  have up: "fsub (Finite False 4503599627370496 (- 50)) (Finite False 6755399441055744 (- 51)) =
      Finite False 4503599627370496 (- 52)"
    by (simp add: fsub_def fadd_def fneg_def pack_def bitLength_def)
  have down: "fsub (Finite False 4503599627370496 (- 51)) (Finite False 6755399441055744 (- 51)) =
      Finite True 4503599627370496 (- 52)"
    by (simp add: fsub_def fadd_def fneg_def pack_def bitLength_def)
  have third: "fdiv (Finite s 4503599627370496 (- 52)) (Finite False 6755399441055744 (- 51)) =
      Finite s 6004799503160661 (- 54)" for s
    by (simp add: fdiv_def pack_def roundShift_def bitLength_def Let_def)
  have percent: "fmul (Finite s 6004799503160661 (- 54)) (Finite False 7036874417766400 (- 46)) =
      Finite s 4691249611844266 (- 47)" for s
    by (simp add: fmul_def pack_def roundShift_def bitLength_def Let_def)
  have unguarded: "fmul (fdiv (fsub (Finite False 4503599627370496 (- 50)) (Finite True 0 0))
      (Finite True 0 0)) (Finite False 7036874417766400 (- 46)) = Infinity True"
    by (simp add: fsub_def fadd_def fneg_def fdiv_def fmul_def pack_def bitLength_def)
  from forecastRows_tape [of demoTape] forecastRows_tape [of "demoTape\<lparr>fr_last_close := Finite True 0 0\<rparr>"]
  show ?thesis
    by (simp add: demoTape_def isZero_def o2 o3 o4 o100 up down third percent unguarded)
qed

text \<open>
  Claim C5. With a forecast result the chart series is the history points in order, each
  with its value under \<open>history\<close> and no forecast, followed by the forecast points in order,
  each with its value under \<open>forecast\<close> and no history, so its length is the sum of the two
  lengths. Without one, a non-empty history-only series is mapped point by point, and the
  series is empty otherwise.
\<close>

theorem chartData_series:
  "chartData (Some fr) h =
     map (\<lambda>p. \<lparr>c_date = p_date p, c_history = Some (p_value p), c_forecast = None\<rparr>) (fr_history fr)
     @ map (\<lambda>p. \<lparr>c_date = p_date p, c_history = None, c_forecast = Some (p_value p)\<rparr>) (fr_forecast fr)
   \<and> length (chartData (Some fr) h) = length (fr_history fr) + length (fr_forecast fr)
   \<and> (h \<noteq> [] \<longrightarrow> chartData None h =
         map (\<lambda>p. \<lparr>c_date = p_date p, c_history = Some (p_value p), c_forecast = None\<rparr>) h)
   \<and> chartData None ([] :: 'n point list) = []"
  for fr :: "'n ForecastResult"
  by (simp add: chartData_def Let_def)

text \<open>
  One history point and two forecast points give a chart of three points; the history-only
  series is not drawn under a forecast, and is drawn alone without one.
\<close>

theorem chartData_series_witness:
  "chartData (Some demoForecast) [\<lparr>p_date = ''2023-12-31'', p_value = 7\<rparr>] =
     [\<lparr>c_date = ''2024-01-01'', c_history = Some 100, c_forecast = None\<rparr>,
      \<lparr>c_date = ''2024-01-02'', c_history = None, c_forecast = Some 110\<rparr>,
      \<lparr>c_date = ''2024-01-03'', c_history = None, c_forecast = Some 95\<rparr>]
   \<and> chartData None [\<lparr>p_date = ''2023-12-31'', p_value = (7::real)\<rparr>] =
     [\<lparr>c_date = ''2023-12-31'', c_history = Some 7, c_forecast = None\<rparr>]"
  using chartData_series [of demoForecast "[\<lparr>p_date = ''2023-12-31'', p_value = 7\<rparr>]"]
  by (simp add: demoForecast_def)

subsection \<open>Payloads\<close>

text \<open>
  Claim C6. The one request of a train submission is a POST to \<^verbatim>\<open>/api/train\<close> whose body
  carries \<open>input_len\<close>, \<open>pred_len\<close>, \<open>epochs\<close>, \<open>batch_size\<close> and \<open>learning_rate\<close> as the
  result of \<^verbatim>\<open>Number\<close> on the form's value, and the one request of a predict submission is
  a POST to \<^verbatim>\<open>/api/predict\<close> whose body carries \<open>horizon\<close> and \<open>history_points\<close> so;
  \<^verbatim>\<open>Number\<close> is the runtime's conversion on a string and leaves a number as it is. In
  both bodies \<open>local_data_dir\<close> is null (\<open>None\<close>) when the form field is empty and the
  entered path otherwise, and the other fields are those of the form.
\<close>

theorem payload_numbers:
  "snd (dispatch rt s TrainSubmit) =
     [\<lparr>rq_method = POST, rq_path = ''/api/train'',
       rq_content = TrainBody
         \<lparr>tp_ticker = tf_ticker (trainForm s),
          tp_period = tf_period (trainForm s),
          tp_input_len = Number rt (tf_input_len (trainForm s)),
          tp_pred_len = Number rt (tf_pred_len (trainForm s)),
          tp_epochs = Number rt (tf_epochs (trainForm s)),
          tp_batch_size = Number rt (tf_batch_size (trainForm s)),
          tp_learning_rate = Number rt (tf_learning_rate (trainForm s)),
          tp_data_source = tf_data_source (trainForm s),
          tp_local_data_dir =
            (if tf_local_data_dir (trainForm s) = [] then None
             else Some (tf_local_data_dir (trainForm s)))\<rparr>\<rparr>]
   \<and> snd (dispatch rt s PredictSubmit) =
     [\<lparr>rq_method = POST, rq_path = ''/api/predict'',
       rq_content = PredictBody
         \<lparr>pp_ticker = pf_ticker (predictForm s),
          pp_horizon = Number rt (pf_horizon (predictForm s)),
          pp_history_points = Number rt (pf_history_points (predictForm s)),
          pp_data_source = pf_data_source (predictForm s),
          pp_local_data_dir =
            (if pf_local_data_dir (predictForm s) = [] then None
             else Some (pf_local_data_dir (predictForm s)))\<rparr>\<rparr>]
   \<and> rq_content (trainModel trainBody) = TrainBody trainBody
   \<and> rq_content (predictStock predictBody) = PredictBody predictBody
   \<and> tp_input_len (trainPayload rt tf) = Number rt (tf_input_len tf)
   \<and> tp_pred_len (trainPayload rt tf) = Number rt (tf_pred_len tf)
   \<and> tp_epochs (trainPayload rt tf) = Number rt (tf_epochs tf)
   \<and> tp_batch_size (trainPayload rt tf) = Number rt (tf_batch_size tf)
   \<and> tp_learning_rate (trainPayload rt tf) = Number rt (tf_learning_rate tf)
   \<and> pp_horizon (predictPayload rt pf) = Number rt (pf_horizon pf)
   \<and> pp_history_points (predictPayload rt pf) = Number rt (pf_history_points pf)
   \<and> Number rt (FStr v) = StringToNumber rt v
   \<and> Number rt (FNum n) = n
   \<and> tp_local_data_dir (trainPayload rt tf) =
       (if tf_local_data_dir tf = [] then None else Some (tf_local_data_dir tf))
   \<and> pp_local_data_dir (predictPayload rt pf) =
       (if pf_local_data_dir pf = [] then None else Some (pf_local_data_dir pf))"
  for s :: "'n app" and trainBody :: "'n TrainPayload" and predictBody :: "'n PredictPayload"
  by (simp add: dispatch_def onTrainSubmit_call_def onPredictSubmit_call_def trainModel_def
      predictStock_def trainPayload_def predictPayload_def Number_def orAbsent_def)

text \<open>
  After typing 64 into the input length and a directory into the path, the train request
  carries the number 64 and that directory; after typing 64 into the horizon and a
  directory into the path of the predict form, the predict request carries the
  number 64 and that directory. The untouched forms send null for the path.
\<close>

theorem payload_numbers_witness:
  "snd (dispatch demoRuntime
          (fst (dispatch demoRuntime
                  (fst (dispatch demoRuntime initialApp (ChangeTrain TInputLen ''64'')))
                  (ChangeTrain TLocalDataDir ''backend/data'')))
          TrainSubmit) =
     [\<lparr>rq_method = POST, rq_path = ''/api/train'',
       rq_content = TrainBody \<lparr>tp_ticker = ''RELIANCE'', tp_period = ''5y'', tp_input_len = 64,
                               tp_pred_len = 5, tp_epochs = 30, tp_batch_size = 32,
                               tp_learning_rate = 1 / 1000, tp_data_source = ''local'',
                               tp_local_data_dir = Some ''backend/data''\<rparr>\<rparr>]
   \<and> snd (dispatch demoRuntime
          (fst (dispatch demoRuntime
                  (fst (dispatch demoRuntime initialApp (ChangePredict PHorizon ''64'')))
                  (ChangePredict PLocalDataDir ''backend/data'')))
          PredictSubmit) =
     [\<lparr>rq_method = POST, rq_path = ''/api/predict'',
       rq_content = PredictBody \<lparr>pp_ticker = ''RELIANCE'', pp_horizon = 64,
                                 pp_history_points = 90, pp_data_source = ''local'',
                                 pp_local_data_dir = Some ''backend/data''\<rparr>\<rparr>]
   \<and> snd (dispatch demoRuntime initialApp PredictSubmit) =
     [\<lparr>rq_method = POST, rq_path = ''/api/predict'',
       rq_content = PredictBody \<lparr>pp_ticker = ''RELIANCE'', pp_horizon = 10,
                                 pp_history_points = 90, pp_data_source = ''local'',
                                 pp_local_data_dir = None\<rparr>\<rparr>]"
  using payload_numbers [where rt = demoRuntime and tf = initialTrain and pf = initialPredict
      and v = "''64''" and n = 60
      and trainBody = "trainPayload demoRuntime initialTrain"
      and predictBody = "predictPayload demoRuntime initialPredict"
      and s = "fst (dispatch demoRuntime
                  (fst (dispatch demoRuntime initialApp (ChangeTrain TInputLen ''64'')))
                  (ChangeTrain TLocalDataDir ''backend/data''))"]
    payload_numbers [where rt = demoRuntime and tf = initialTrain and pf = initialPredict
      and v = "''64''" and n = 60
      and trainBody = "trainPayload demoRuntime initialTrain"
      and predictBody = "predictPayload demoRuntime initialPredict"
      and s = "fst (dispatch demoRuntime
                  (fst (dispatch demoRuntime initialApp (ChangePredict PHorizon ''64'')))
                  (ChangePredict PLocalDataDir ''backend/data''))"]
    payload_numbers [where rt = demoRuntime and tf = initialTrain and pf = initialPredict
      and v = "''64''" and n = 60
      and trainBody = "trainPayload demoRuntime initialTrain"
      and predictBody = "predictPayload demoRuntime initialPredict"
      and s = initialApp]
  by (simp add: dispatch_def changeTrain_def changePredict_def symbolsEffect_def
      loadSymbols_call_def issued_def initialApp_def initialTrain_def initialPredict_def
      Number_def demoRuntime_def Let_def)

subsection \<open>The symbol list\<close>

text \<open>
  Claim C7. When a symbols fetch settles, the symbols state is the response's list when the
  fetch succeeded and the field is there, and empty when the field is missing or the fetch
  failed; with the data source \<^verbatim>\<open>yfinance\<close> no request is made and the state is empty.
\<close>

theorem symbols_after_fetch:
  "symbols (loadSymbols_settle (Inr \<lparr>sr_symbols = Some xs\<rparr>) s) = xs
   \<and> symbols (loadSymbols_settle (Inr \<lparr>sr_symbols = None\<rparr>) s) = []
   \<and> symbols (loadSymbols_settle (Inl e) s) = []
   \<and> loadSymbols_call ''yfinance'' localDataDir s = (s\<lparr>symbols := []\<rparr>, None)
   \<and> symbols (loadSymbols respond ''yfinance'' localDataDir s) = []
   \<and> (dataSource \<noteq> ''yfinance'' \<longrightarrow>
        symbols (loadSymbols respond dataSource localDataDir s) =
          (case respond (getSymbols \<lparr>sp_data_source = dataSource,
                                      sp_local_data_dir = orAbsent localDataDir\<rparr>) of
             Inr data \<Rightarrow> (case sr_symbols data of Some ys \<Rightarrow> ys | None \<Rightarrow> [])
           | Inl e' \<Rightarrow> []))"
  for s :: "'n app"
  by (auto simp: loadSymbols_settle_def loadSymbols_call_def loadSymbols_def
      split: sum.splits option.splits)

text \<open>
  A response listing two symbols stores both; a rejected fetch empties a list that held one.
\<close>

theorem symbols_after_fetch_witness:
  "symbols (loadSymbols (\<lambda>req. Inr \<lparr>sr_symbols = Some [''TCS'', ''INFY'']\<rparr>) ''local'' ''''
             initialApp) = [''TCS'', ''INFY'']
   \<and> symbols (loadSymbols (\<lambda>req. Inl demoError) ''auto'' '''' (initialApp\<lparr>symbols := [''TCS'']\<rparr>)) = []"
  using symbols_after_fetch [where s = initialApp and dataSource = "''local''"
      and localDataDir = "''''" and respond = "\<lambda>req. Inr \<lparr>sr_symbols = Some [''TCS'', ''INFY'']\<rparr>"]
    symbols_after_fetch [where s = "initialApp\<lparr>symbols := [''TCS'']\<rparr>" and dataSource = "''auto''"
      and localDataDir = "''''" and respond = "\<lambda>req. Inl demoError"]
  by simp

subsection \<open>Forecast and history-only series\<close>

text \<open>No event populates the forecast result and the history-only series together.\<close>

lemma dispatch_atMostOne: "atMostOne s \<Longrightarrow> atMostOne (fst (dispatch rt s ev))"
  by (cases ev)
     (auto simp: atMostOne_def dispatch_def issued_def symbolsEffect_def loadSymbols_call_def
        applySymbol_def onTrainSubmit_call_def onTrainSubmit_settle_def onPredictSubmit_call_def
        onPredictSubmit_settle_def onLoadHistory_call_def onLoadHistory_settle_def
        loadSymbols_settle_def Let_def split: sum.splits option.splits)

lemma run_atMostOne: "atMostOne s \<Longrightarrow> atMostOne (run rt s evs)"
  by (induction evs arbitrary: s) (simp_all add: dispatch_atMostOne)

text \<open>
  Claim C8. At most one of the forecast result and the history-only series is populated:
  this holds initially and is kept by every sequence of events, with requests settling in
  any order. A successful predict stores the forecast result and empties the history-only
  series, a successful history load stores the series and clears the forecast result, and
  the chart of a forecast does not depend on the history-only series.
\<close>

theorem forecast_history_exclusive:
  "atMostOne initialApp
   \<and> (atMostOne s \<longrightarrow> atMostOne (run rt s evs))
   \<and> forecastResult (onPredictSubmit_settle (Inr predicted) s) = Some predicted
   \<and> historyOnly (onPredictSubmit_settle (Inr predicted) s) = []
   \<and> historyOnly (onLoadHistory_settle (Inr loaded) s) =
       (case hr_history loaded of Some h \<Rightarrow> h | None \<Rightarrow> [])
   \<and> forecastResult (onLoadHistory_settle (Inr loaded) s) = None
   \<and> chartData (Some fr) (historyOnly s) = chartData (Some fr) []"
  for s :: "'n app"
proof -
  have start: "atMostOne initialApp"
    by (simp add: atMostOne_def initialApp_def)
  have kept: "atMostOne s \<longrightarrow> atMostOne (run rt s evs)"
    by (simp add: run_atMostOne)
  have predict: "forecastResult (onPredictSubmit_settle (Inr predicted) s) = Some predicted
      \<and> historyOnly (onPredictSubmit_settle (Inr predicted) s) = []"
    by (simp add: onPredictSubmit_settle_def)
  have history: "historyOnly (onLoadHistory_settle (Inr loaded) s) =
        (case hr_history loaded of Some h \<Rightarrow> h | None \<Rightarrow> [])
      \<and> forecastResult (onLoadHistory_settle (Inr loaded) s) = None"
    by (simp add: onLoadHistory_settle_def)
  have chart: "chartData (Some fr) (historyOnly s) = chartData (Some fr) []"
    by (simp add: chartData_def)
  from start kept predict history chart show ?thesis by blast
qed

text \<open>
  A history load followed by a forecast: after the forecast settles the history-only series
  is empty.
\<close>

theorem forecast_history_exclusive_witness:
  "atMostOne (run demoRuntime initialApp
     [LoadHistory,
      HistorySettled (Inr \<lparr>hr_history = Some [\<lparr>p_date = ''2024-01-01'', p_value = 100\<rparr>]\<rparr>),
      PredictSubmit, PredictSettled (Inr demoForecast)])
   \<and> historyOnly (run demoRuntime initialApp
     [LoadHistory,
      HistorySettled (Inr \<lparr>hr_history = Some [\<lparr>p_date = ''2024-01-01'', p_value = 100\<rparr>]\<rparr>),
      PredictSubmit, PredictSettled (Inr demoForecast)]) = []"
  using forecast_history_exclusive [where s = initialApp and rt = demoRuntime and evs =
     "[LoadHistory,
      HistorySettled (Inr \<lparr>hr_history = Some [\<lparr>p_date = ''2024-01-01'', p_value = 100\<rparr>]\<rparr>),
      PredictSubmit, PredictSettled (Inr demoForecast)]"]
  by (simp add: dispatch_def onLoadHistory_call_def onLoadHistory_settle_def
      onPredictSubmit_call_def onPredictSubmit_settle_def)

subsection \<open>Frame properties\<close>

text \<open>
  Claim C9. A train submit, a predict submit or a history load whose request is rejected
  ends in the state it started from with only the error message and its own loading flag
  set: the train result, the forecast result, the history-only series and both forms are as
  they were. The same holds for the settlement alone, on whatever state it meets.
\<close>

theorem failure_leaves_results:
  "(respondTrain (snd (onTrainSubmit_call rt s)) = Inl e \<longrightarrow>
      onTrainSubmit rt respondTrain s =
        s\<lparr>loadingTrain := False, error := errorText e ''Training failed''\<rparr>)
   \<and> (respondPredict (snd (onPredictSubmit_call rt s)) = Inl e \<longrightarrow>
      onPredictSubmit rt respondPredict s =
        s\<lparr>loadingPredict := False, error := errorText e ''Prediction failed''\<rparr>)
   \<and> (respondHistory (snd (onLoadHistory_call rt s)) = Inl e \<longrightarrow>
      onLoadHistory rt respondHistory s =
        s\<lparr>loadingHistory := False, error := errorText e ''History fetch failed''\<rparr>)
   \<and> onTrainSubmit_settle tf (Inl e) s' =
        s'\<lparr>loadingTrain := False, error := errorText e ''Training failed''\<rparr>
   \<and> onPredictSubmit_settle (Inl e) s' =
        s'\<lparr>loadingPredict := False, error := errorText e ''Prediction failed''\<rparr>
   \<and> onLoadHistory_settle (Inl e) s' =
        s'\<lparr>loadingHistory := False, error := errorText e ''History fetch failed''\<rparr>"
  for s s' :: "'n app"
  by (simp add: onTrainSubmit_def onTrainSubmit_call_def onTrainSubmit_settle_def
      onPredictSubmit_def onPredictSubmit_call_def onPredictSubmit_settle_def
      onLoadHistory_def onLoadHistory_call_def onLoadHistory_settle_def)

text \<open>
  A rejected predict keeps the loaded history, a rejected history load keeps the forecast.
\<close>

theorem failure_leaves_results_witness:
  "onPredictSubmit demoRuntime (\<lambda>req. Inl demoError)
     (initialApp\<lparr>historyOnly := [\<lparr>p_date = ''2024-01-01'', p_value = 100\<rparr>]\<rparr>) =
   initialApp\<lparr>historyOnly := [\<lparr>p_date = ''2024-01-01'', p_value = 100\<rparr>],
              error := ''Data directory not found''\<rparr>
   \<and> onTrainSubmit demoRuntime (\<lambda>req. Inl demoError) initialApp =
     initialApp\<lparr>error := ''Data directory not found''\<rparr>
   \<and> onLoadHistory demoRuntime (\<lambda>req. Inl demoError) (initialApp\<lparr>forecastResult := Some demoForecast\<rparr>) =
     initialApp\<lparr>forecastResult := Some demoForecast, error := ''Data directory not found''\<rparr>"
  using failure_leaves_results [where rt = demoRuntime and e = demoError
      and respondTrain = "\<lambda>req. Inl demoError" and respondPredict = "\<lambda>req. Inl demoError"
      and respondHistory = "\<lambda>req. Inl demoError"
      and s = "initialApp\<lparr>historyOnly := [\<lparr>p_date = ''2024-01-01'', p_value = 100\<rparr>]\<rparr>"
      and s' = initialApp and tf = initialTrain]
    failure_leaves_results [where rt = demoRuntime and e = demoError
      and respondTrain = "\<lambda>req. Inl demoError" and respondPredict = "\<lambda>req. Inl demoError"
      and respondHistory = "\<lambda>req. Inl demoError"
      and s = initialApp and s' = initialApp and tf = initialTrain]
    failure_leaves_results [where rt = demoRuntime and e = demoError
      and respondTrain = "\<lambda>req. Inl demoError" and respondPredict = "\<lambda>req. Inl demoError"
      and respondHistory = "\<lambda>req. Inl demoError"
      and s = "initialApp\<lparr>forecastResult := Some demoForecast\<rparr>" and s' = initialApp
      and tf = initialTrain]
  by (simp add: initialApp_def errorText_def orJs_def orElse_def truthy_def demoError_def)

text \<open>
  Claim C10. A successful train submission overwrites the ticker, the data source and the
  data directory of the predict form with those of the submitted train form and leaves its
  horizon and history points as they were; run to completion, the predict form then agrees
  with the train form on the three fields, and the train form itself is unchanged.
\<close>

theorem train_success_copies_to_predict:
  "predictForm (onTrainSubmit_settle tf (Inr trained) s) =
     (predictForm s)\<lparr>pf_ticker := tf_ticker tf, pf_data_source := tf_data_source tf,
                     pf_local_data_dir := tf_local_data_dir tf\<rparr>
   \<and> pf_horizon (predictForm (onTrainSubmit_settle tf (Inr trained) s)) = pf_horizon (predictForm s)
   \<and> pf_history_points (predictForm (onTrainSubmit_settle tf (Inr trained) s)) =
       pf_history_points (predictForm s)
   \<and> (respond (snd (onTrainSubmit_call rt s)) = Inr trained \<longrightarrow>
        pf_ticker (predictForm (onTrainSubmit rt respond s)) = tf_ticker (trainForm s)
        \<and> pf_data_source (predictForm (onTrainSubmit rt respond s)) = tf_data_source (trainForm s)
        \<and> pf_local_data_dir (predictForm (onTrainSubmit rt respond s)) =
            tf_local_data_dir (trainForm s)
        \<and> pf_horizon (predictForm (onTrainSubmit rt respond s)) = pf_horizon (predictForm s)
        \<and> pf_history_points (predictForm (onTrainSubmit rt respond s)) =
            pf_history_points (predictForm s)
        \<and> trainForm (onTrainSubmit rt respond s) = trainForm s)"
  for s :: "'n app"
  by (simp add: onTrainSubmit_def onTrainSubmit_call_def onTrainSubmit_settle_def)

text \<open>
  Training TCS from \<^verbatim>\<open>yfinance\<close> moves both into the predict form and keeps its horizon of
  10 and its 90 history points.
\<close>

theorem train_success_copies_to_predict_witness:
  "predictForm (onTrainSubmit demoRuntime (\<lambda>req. Inr demoTrainResult)
      (fst (dispatch demoRuntime
         (fst (dispatch demoRuntime initialApp (ChangeTrain TDataSource ''yfinance'')))
         (ChangeTrain TTicker ''TCS'')))) =
     \<lparr>pf_ticker = ''TCS'', pf_horizon = FNum 10, pf_history_points = FNum 90,
      pf_data_source = ''yfinance'', pf_local_data_dir = ''''\<rparr>"
  using train_success_copies_to_predict [where rt = demoRuntime and trained = demoTrainResult
      and respond = "\<lambda>req. Inr demoTrainResult"
      and tf = initialTrain
      and s = "fst (dispatch demoRuntime
         (fst (dispatch demoRuntime initialApp (ChangeTrain TDataSource ''yfinance'')))
         (ChangeTrain TTicker ''TCS''))"]
  by (simp add: dispatch_def changeTrain_def symbolsEffect_def loadSymbols_call_def issued_def
      initialApp_def initialTrain_def initialPredict_def demoRuntime_def Let_def
      onTrainSubmit_def onTrainSubmit_call_def onTrainSubmit_settle_def)

end
